theory Spec2Isabelle
  imports Main
begin

section \<open>Wallet login flow: UserContext and Login\<close>

text \<open>
  The user context provider (\<^verbatim>\<open>UserProvider\<close>: \<^verbatim>\<open>getUserInfo\<close>, \<^verbatim>\<open>connectWallet\<close>,
  \<^verbatim>\<open>logUserOut\<close>, \<^verbatim>\<open>checkForUser\<close>) and the login handler of the \<^verbatim>\<open>Login\<close> component
  (\<^verbatim>\<open>handleLogin\<close>), as functions on an explicit state.

  Values are taken at the types the interfaces declare: a handle, an id, an image path or
  a link is a string or is absent. What \<open>None\<close> stands for depends on the place:
  \<^item> for an attribute of the identity and for the result of \<^verbatim>\<open>authenticate\<close> it is
    \<^verbatim>\<open>undefined\<close> (an attribute that is not set; the declared result
    \<^verbatim>\<open>User | undefined\<close>); a \<^verbatim>\<open>null\<close> there is outside these types and is not a
    value of the model;
  \<^item> for a field of a JSON object it is a missing key or \<^verbatim>\<open>null\<close>, which the code only
    tests for truthiness;
  \<^item> for \<^verbatim>\<open>img\<close> and \<^verbatim>\<open>link\<close> of the session it is \<^verbatim>\<open>null\<close>.

  An awaited call of the wallet SDK or of \<^verbatim>\<open>fetch\<close> either resolves to a value or
  rejects; what it does is given by an environment, so that every function below is a
  total, executable function of the environment and the state.
\<close>

subsection \<open>Data\<close>

datatype UserLoginError = RegistrationPending | ConnectionPending | Unknown

text \<open>What a \<^verbatim>\<open>throw\<close> or a rejected promise carries: one of the three login errors, a
  \<^verbatim>\<open>TypeError\<close> (a property read on \<^verbatim>\<open>null\<close>), or the rejection of an external call.\<close>

datatype exn = Thrown UserLoginError | TypeError | Rejected

datatype 'a promise = Rejects | Resolves 'a

record team =
  team_username :: string
  team_address :: "string option"
  team_img :: "string option"

text \<open>The JSON bodies of the two endpoints: \<^verbatim>\<open>null\<close>, an object with the fields the
  code reads (\<^verbatim>\<open>error\<close>, \<^verbatim>\<open>moralisId\<close>, \<^verbatim>\<open>image\<close>, \<^verbatim>\<open>link\<close>), or an array of teams.\<close>

record json_object =
  j_error :: "string option"
  j_moralisId :: "string option"
  j_image :: "string option"
  j_link :: "string option"

datatype json = JNull | JObject json_object | JArray "team list"

text \<open>\<^verbatim>\<open>interface UserState\<close>. The field \<open>teams\<close> holds whatever the team endpoint's
  body parsed to (line 189 stores it unchecked).\<close>

record UserState =
  address :: "string option"
  username :: "string option"
  discordUsername :: "string option"
  gitHubUsername :: "string option"
  emailAddress :: "string option"
  moralisId :: "string option"
  teams :: json
  isLoggedIn :: bool
  img :: "string option"
  link :: "string option"

text \<open>A \<^verbatim>\<open>fetch\<close> response. \<open>json\<close> is what \<^verbatim>\<open>await response.json()\<close> gives (it rejects
  on a body that is not JSON); \<^verbatim>\<open>response.ok\<close> is, by the Fetch standard, a status in
  the range 200 to 299.\<close>

record response =
  status :: nat
  url :: string
  json :: "json promise"

definition ok :: "response \<Rightarrow> bool" where
  "ok r = (200 \<le> status r \<and> status r \<le> 299)"

text \<open>The identity of the wallet SDK (\<^verbatim>\<open>Moralis.User\<close>) with the attributes the code reads;
  \<^verbatim>\<open>user.get(k)\<close> is the attribute \<open>k\<close>.\<close>

record moralis_user =
  c4Username :: "string option"
  ethAddress :: "string option"
  attr_discordUsername :: "string option"
  attr_gitHubUsername :: "string option"
  attr_emailAddress :: "string option"
  handlesPendingConfirmation :: "string list option"

datatype provider = Metamask | WalletConnect

text \<open>The environment of one run: the results of the external calls.\<close>

record env =
  fetch :: "string \<Rightarrow> response promise"
  current :: "moralis_user option"
  findUser :: "string list option promise"
  save :: "moralis_user \<Rightarrow> unit promise"
  authenticate :: "provider \<Rightarrow> moralis_user option promise"
  isAuthenticated :: bool

datatype toast_type = Success | Error

record toast =
  render :: string
  severity :: toast_type

text \<open>The effects on the outside, in the order the code performs them. The state is the
  React state cell \<^verbatim>\<open>currentUser\<close> and that log.\<close>

datatype event =
    Logout
  | Navigate string
  | ToastLoading string
  | ToastUpdate toast
  | UserSet "string list"
  | UserSave
  | ConsoleLog
  | ConsoleError

record state =
  currentUser :: UserState
  events :: "event list"

subsection \<open>Helpers of the language\<close>

text \<open>JavaScript truthiness of a string that may be absent, \<^verbatim>\<open>v || null\<close>, and the
  interpolation \<^verbatim>\<open>${v}\<close> in a template string. Only the attribute \<^verbatim>\<open>c4Username\<close> is
  ever interpolated, so \<open>None\<close> is \<^verbatim>\<open>undefined\<close> there.\<close>

definition truthy :: "string option \<Rightarrow> bool" where
  "truthy v = (case v of None \<Rightarrow> False | Some s \<Rightarrow> s \<noteq> [])"

definition or_null :: "string option \<Rightarrow> string option" where
  "or_null v = (if truthy v then v else None)"

definition interpolate :: "string option \<Rightarrow> string" where
  "interpolate v = (case v of None \<Rightarrow> ''undefined'' | Some s \<Rightarrow> s)"

definition emit :: "event \<Rightarrow> state \<Rightarrow> state" where
  "emit e s = s\<lparr>events := events s @ [e]\<rparr>"

definition setCurrentUser :: "UserState \<Rightarrow> state \<Rightarrow> state" where
  "setCurrentUser u s = s\<lparr>currentUser := u\<rparr>"

definition navigate :: "string \<Rightarrow> state \<Rightarrow> state" where
  "navigate route s = emit (Navigate route) s"

definition toast_update :: "string \<Rightarrow> toast_type \<Rightarrow> state \<Rightarrow> state" where
  "toast_update r t s = emit (ToastUpdate \<lparr>render = r, severity = t\<rparr>) s"

subsection \<open>UserContext\<close>

definition DEFAULT_STATE :: UserState where
  "DEFAULT_STATE = \<lparr>address = Some [], username = Some [], discordUsername = Some [],
     gitHubUsername = Some [], emailAddress = Some [], moralisId = Some [],
     teams = JArray [], isLoggedIn = False, img = None, link = None\<rparr>"

definition user_url :: "string option \<Rightarrow> string" where
  "user_url c4 = ''/.netlify/functions/get-user?id='' @ interpolate c4"

definition team_url :: "string option \<Rightarrow> string" where
  "team_url c4 = ''/.netlify/functions/get-team?id='' @ interpolate c4"

definition image_url :: "string \<Rightarrow> string" where
  "image_url imagePath =
     ''https://raw.githubusercontent.com/code-423n4/code423n4.com/main/_data/handles/'' @ imagePath"

text \<open>\<^verbatim>\<open>getUserInfo\<close>, lines 149 to 167: the profile record, or the error thrown.
  A property read on an array or on an object without that key gives \<^verbatim>\<open>undefined\<close>;
  on \<^verbatim>\<open>null\<close> it throws.\<close>

definition fetchRegisteredUser :: "env \<Rightarrow> moralis_user \<Rightarrow> exn + json_object" where
  "fetchRegisteredUser e user =
     (case fetch e (user_url (c4Username user)) of
        Rejects \<Rightarrow> Inl Rejected
      | Resolves userResponse \<Rightarrow>
          if \<not> ok userResponse then
            (case json userResponse of
               Rejects \<Rightarrow> Inl Rejected
             | Resolves JNull \<Rightarrow> Inl TypeError
             | Resolves (JObject error) \<Rightarrow>
                 if j_error error = Some ''User not found''
                 then Inl (Thrown RegistrationPending)
                 else Inl (Thrown Unknown)
             | Resolves (JArray _) \<Rightarrow> Inl (Thrown Unknown))
          else
            (case json userResponse of
               Rejects \<Rightarrow> Inl Rejected
             | Resolves JNull \<Rightarrow> Inl (Thrown RegistrationPending)
             | Resolves (JArray _) \<Rightarrow> Inl (Thrown ConnectionPending)
             | Resolves (JObject registeredUser) \<Rightarrow>
                 if \<not> truthy (j_moralisId registeredUser)
                 then Inl (Thrown ConnectionPending)
                 else Inr registeredUser))"

text \<open>\<^verbatim>\<open>getUserInfo\<close>, lines 169 to 178: the avatar step, giving the record with its
  \<^verbatim>\<open>image\<close> as line 176 may have reassigned it. \<^verbatim>\<open>slice(2)\<close> drops the first two
  characters.\<close>

definition resolveImage :: "env \<Rightarrow> json_object \<Rightarrow> exn + json_object" where
  "resolveImage e registeredUser =
     (case j_image registeredUser of
        None \<Rightarrow> Inr registeredUser
      | Some image_str \<Rightarrow>
          if image_str = [] then Inr registeredUser
          else
            (let imagePath = drop 2 image_str in
             case fetch e (image_url imagePath) of
               Rejects \<Rightarrow> Inl Rejected
             | Resolves imgResponse \<Rightarrow>
                 if ok imgResponse
                 then Inr (registeredUser\<lparr>j_image := Some (url imgResponse)\<rparr>)
                 else Inr registeredUser))"

text \<open>\<^verbatim>\<open>getUserInfo\<close>, lines 183 to 190: the team query.\<close>

definition fetchTeams :: "env \<Rightarrow> moralis_user \<Rightarrow> exn + json" where
  "fetchTeams e user =
     (case fetch e (team_url (c4Username user)) of
        Rejects \<Rightarrow> Inl Rejected
      | Resolves teamsResponse \<Rightarrow>
          if status teamsResponse = 200 then
            (case json teamsResponse of
               Rejects \<Rightarrow> Inl Rejected
             | Resolves ts \<Rightarrow> Inr ts)
          else Inr (JArray []))"

text \<open>\<^verbatim>\<open>getUserInfo\<close> as a whole: the three steps in order, then the one
  \<^verbatim>\<open>setCurrentUser\<close> of lines 192 to 203. An error leaves the state as it was.\<close>

definition getUserInfo :: "env \<Rightarrow> moralis_user \<Rightarrow> state \<Rightarrow> (exn + unit) \<times> state" where
  "getUserInfo e user s =
     (case fetchRegisteredUser e user of
        Inl err \<Rightarrow> (Inl err, s)
      | Inr fetched \<Rightarrow>
          (case resolveImage e fetched of
             Inl err \<Rightarrow> (Inl err, s)
           | Inr registeredUser \<Rightarrow>
               (case fetchTeams e user of
                  Inl err \<Rightarrow> (Inl err, s)
                | Inr ts \<Rightarrow>
                    (Inr (),
                     setCurrentUser
                       \<lparr>address = ethAddress user,
                        username = c4Username user,
                        discordUsername = attr_discordUsername user,
                        gitHubUsername = attr_gitHubUsername user,
                        emailAddress = attr_emailAddress user,
                        moralisId = j_moralisId registeredUser,
                        teams = ts,
                        isLoggedIn = True,
                        img = or_null (j_image registeredUser),
                        link = or_null (j_link registeredUser)\<rparr> s))))"

text \<open>\<^verbatim>\<open>logUserOut\<close>: the SDK's \<^verbatim>\<open>logout()\<close> is called (not awaited), then the state is
  reset.\<close>

definition logUserOut :: "state \<Rightarrow> state" where
  "logUserOut s = setCurrentUser DEFAULT_STATE (emit Logout s)"

text \<open>\<^verbatim>\<open>connectWallet\<close>. The result is \<open>None\<close> for the bare \<^verbatim>\<open>return\<close> and
  \<open>Some ''connected''\<close> for line 238. An empty array is truthy, so the marker is set
  whenever the attribute is present.\<close>

definition connectWallet :: "env \<Rightarrow> state \<Rightarrow> (exn + string option) \<times> state" where
  "connectWallet e s =
     (case current e of
        None \<Rightarrow> (Inr None, logUserOut s)
      | Some user \<Rightarrow>
          (let s1 = (if handlesPendingConfirmation user \<noteq> None
                     then navigate ''/confirm-account'' s else s)
           in if \<not> truthy (c4Username user) then
                (case findUser e of
                   Rejects \<Rightarrow> (Inl Rejected, s1)
                 | Resolves associatedHandles \<Rightarrow>
                     (case associatedHandles of
                        None \<Rightarrow> (Inr None, navigate ''/register'' (logUserOut s1))
                      | Some hs \<Rightarrow>
                          if length hs < 1
                          then (Inr None, navigate ''/register'' (logUserOut s1))
                          else
                            (let s2 = emit UserSave (emit (UserSet hs) s1) in
                             case save e (user\<lparr>handlesPendingConfirmation := Some hs\<rparr>) of
                               Rejects \<Rightarrow> (Inl Rejected, s2)
                             | Resolves _ \<Rightarrow>
                                 (Inr (Some ''connected''),
                                  navigate ''/confirm-account'' s2))))
              else
                (case getUserInfo e user s1 of
                   (Inl err, s2) \<Rightarrow> (Inl err, s2)
                 | (Inr _, s2) \<Rightarrow> (Inr (Some ''connected''), s2))))"

text \<open>\<^verbatim>\<open>checkForUser\<close>, the session restore: the \<^verbatim>\<open>catch\<close> of line 263 only writes the
  error to the console.\<close>

definition checkForUser :: "env \<Rightarrow> state \<Rightarrow> state" where
  "checkForUser e s =
     (if \<not> isAuthenticated e then setCurrentUser DEFAULT_STATE s
      else
        (case current e of
           None \<Rightarrow> logUserOut s
         | Some user \<Rightarrow>
             if truthy (c4Username user) then
               (case getUserInfo e user s of
                  (Inl err, s1) \<Rightarrow> emit ConsoleError s1
                | (Inr _, s1) \<Rightarrow> s1)
             else s))"

subsection \<open>Login\<close>

definition msg_must_sign :: string where
  "msg_must_sign = ''You must sign the message to connect your wallet''"

definition msg_failure :: string where
  "msg_failure = ''Something went wrong. Please refresh the page and try again.''"

definition msg_logged_in :: string where
  "msg_logged_in = ''Logged in''"

definition msg_register :: string where
  "msg_register = ''Please register as warden''"

text \<open>The text of the \<^verbatim>\<open>span\<close> of lines 72 to 80 (the link is on the word Discord).\<close>

definition msg_registration_pending :: string where
  "msg_registration_pending =
     ''It looks like your account registration is pending. Don't forget to join us in Discord and give us a howl in #i-want-to-be-a-warden so we can complete your registration.''"

definition msg_connection_pending :: string where
  "msg_connection_pending =
     ''Your request to connect your wallet is pending review. Check the progress in GitHub''"

text \<open>\<^verbatim>\<open>handleLogin\<close>, after \<^verbatim>\<open>event.preventDefault()\<close>. The result \<open>None\<close> of
  \<^verbatim>\<open>authenticate\<close> is \<^verbatim>\<open>undefined\<close>, the value line 26 tests with \<^verbatim>\<open>===\<close>. A thrown
  value is compared with \<^verbatim>\<open>===\<close> against the strings of the enum, which only a thrown
  login error can equal.\<close>

definition handleLogin :: "env \<Rightarrow> provider \<Rightarrow> state \<Rightarrow> state" where
  "handleLogin e prov s =
     (let s0 = emit (ToastLoading ''Logging in...'') s in
      case authenticate e prov of
        Rejects \<Rightarrow>
          toast_update msg_failure Error (logUserOut (emit ConsoleError s0))
      | Resolves None \<Rightarrow> toast_update msg_must_sign Error s0
      | Resolves (Some _) \<Rightarrow>
          (case connectWallet e s0 of
             (Inr connection, s1) \<Rightarrow>
               (let s2 = emit ConsoleLog s1 in
                if truthy connection
                then toast_update msg_logged_in Success s2
                else toast_update msg_register Error s2)
           | (Inl err, s1) \<Rightarrow>
               (let s2 = logUserOut s1 in
                if err = Thrown RegistrationPending
                then toast_update msg_registration_pending Error s2
                else
                  (let s3 = (if err = Thrown ConnectionPending
                             then toast_update msg_connection_pending Error s2 else s2)
                   in toast_update msg_failure Error s3))))"

subsection \<open>The invariant of the session and the notifications of a run\<close>

definition session_inv :: "UserState \<Rightarrow> bool" where
  "session_inv u = (isLoggedIn u = (truthy (moralisId u) \<and> truthy (username u)))"

fun toast_of :: "event \<Rightarrow> toast list" where
  "toast_of (ToastUpdate t) = [t]"
| "toast_of _ = []"

definition toasts :: "state \<Rightarrow> toast list" where
  "toasts s = concat (map toast_of (events s))"

subsection \<open>Concrete runs\<close>

text \<open>The scenario of the specification: the identity has the handle \<^verbatim>\<open>alice\<close>, the
  profile endpoint answers with a linked record whose image is \<^verbatim>\<open>./x.png\<close>, the team
  endpoint with one team. Variations of it follow.\<close>

definition ex_alice :: moralis_user where
  "ex_alice = \<lparr>c4Username = Some ''alice'', ethAddress = Some ''0xA1'',
     attr_discordUsername = Some ''alice#1'', attr_gitHubUsername = Some ''alice-gh'',
     attr_emailAddress = None, handlesPendingConfirmation = None\<rparr>"

definition ex_alice_marked :: moralis_user where
  "ex_alice_marked = ex_alice\<lparr>handlesPendingConfirmation := Some [''alice'']\<rparr>"

definition ex_newcomer :: moralis_user where
  "ex_newcomer = \<lparr>c4Username = None, ethAddress = Some ''0xB2'',
     attr_discordUsername = None, attr_gitHubUsername = None,
     attr_emailAddress = None, handlesPendingConfirmation = None\<rparr>"

definition ex_newcomer_marked :: moralis_user where
  "ex_newcomer_marked = ex_newcomer\<lparr>handlesPendingConfirmation := Some [''bobby'']\<rparr>"

definition ex_record :: json_object where
  "ex_record = \<lparr>j_error = None, j_moralisId = Some ''m1'', j_image = Some ''./x.png'',
     j_link = None\<rparr>"

definition ex_profile_linked :: response where
  "ex_profile_linked = \<lparr>status = 200, url = user_url (Some ''alice''),
     json = Resolves (JObject ex_record)\<rparr>"

definition ex_profile_unlinked :: response where
  "ex_profile_unlinked = \<lparr>status = 200, url = user_url (Some ''alice''),
     json = Resolves (JObject (ex_record\<lparr>j_moralisId := None\<rparr>))\<rparr>"

definition ex_profile_not_found :: response where
  "ex_profile_not_found = \<lparr>status = 404, url = user_url (Some ''alice''),
     json = Resolves (JObject \<lparr>j_error = Some ''User not found'', j_moralisId = None,
       j_image = None, j_link = None\<rparr>)\<rparr>"

definition ex_image_found :: response where
  "ex_image_found = \<lparr>status = 200, url = image_url ''x.png'', json = Rejects\<rparr>"

definition ex_image_missing :: response where
  "ex_image_missing = \<lparr>status = 404, url = image_url ''x.png'', json = Rejects\<rparr>"

definition ex_bob :: team where
  "ex_bob = \<lparr>team_username = ''bob'', team_address = None, team_img = None\<rparr>"

definition ex_teams_found :: response where
  "ex_teams_found = \<lparr>status = 200, url = team_url (Some ''alice''),
     json = Resolves (JArray [ex_bob])\<rparr>"

definition ex_teams_broken :: response where
  "ex_teams_broken = \<lparr>status = 500, url = team_url (Some ''alice''), json = Rejects\<rparr>"

definition ex_fetch :: "response \<Rightarrow> response \<Rightarrow> response \<Rightarrow> string \<Rightarrow> response promise" where
  "ex_fetch profile image_resp teams_resp u =
     (if u = user_url (Some ''alice'') then Resolves profile
      else if u = image_url ''x.png'' then Resolves image_resp
      else if u = team_url (Some ''alice'') then Resolves teams_resp
      else Rejects)"

definition ex_env :: "moralis_user option \<Rightarrow> (string \<Rightarrow> response promise) \<Rightarrow> env" where
  "ex_env cur f = \<lparr>fetch = f, current = cur, findUser = Resolves (Some [''bobby'']),
     save = (\<lambda>_. Resolves ()), authenticate = (\<lambda>_. Resolves cur),
     isAuthenticated = True\<rparr>"

definition ex_state :: state where
  "ex_state = \<lparr>currentUser = DEFAULT_STATE, events = []\<rparr>"

definition env_linked :: env where
  "env_linked = ex_env (Some ex_alice) (ex_fetch ex_profile_linked ex_image_found ex_teams_found)"

definition env_image_missing :: env where
  "env_image_missing =
     ex_env (Some ex_alice) (ex_fetch ex_profile_linked ex_image_missing ex_teams_found)"

definition env_teams_broken :: env where
  "env_teams_broken =
     ex_env (Some ex_alice) (ex_fetch ex_profile_linked ex_image_found ex_teams_broken)"

definition env_not_found :: env where
  "env_not_found =
     ex_env (Some ex_alice) (ex_fetch ex_profile_not_found ex_image_found ex_teams_found)"

definition env_unlinked :: env where
  "env_unlinked =
     ex_env (Some ex_alice) (ex_fetch ex_profile_unlinked ex_image_found ex_teams_found)"

definition env_marked :: env where
  "env_marked =
     ex_env (Some ex_alice_marked) (ex_fetch ex_profile_linked ex_image_found ex_teams_found)"

definition env_newcomer :: env where
  "env_newcomer = ex_env (Some ex_newcomer) (\<lambda>_. Rejects)"

definition env_newcomer_marked :: env where
  "env_newcomer_marked = ex_env (Some ex_newcomer_marked) (\<lambda>_. Rejects)"

definition env_no_identity :: env where
  "env_no_identity = ex_env None (\<lambda>_. Rejects)"

text \<open>The scenario with the request for the image rejected (no answer at all), and the
  newcomer with \<^verbatim>\<open>user.save()\<close> rejected.\<close>

definition env_image_rejected :: env where
  "env_image_rejected =
     ex_env (Some ex_alice)
       (\<lambda>u. if u = image_url ''x.png'' then Rejects
            else ex_fetch ex_profile_linked ex_image_found ex_teams_found u)"

definition env_save_rejected :: env where
  "env_save_rejected = env_newcomer\<lparr>save := (\<lambda>_. Rejects)\<rparr>"

text \<open>A session that is logged in: the one \<^verbatim>\<open>getUserInfo\<close> sets in the scenario.\<close>

definition ex_logged_in :: state where
  "ex_logged_in = snd (getUserInfo env_linked ex_alice ex_state)"

section \<open>Properties\<close>

subsection \<open>Unfolding rules\<close>

lemmas ex_defs = ex_alice_def ex_alice_marked_def ex_newcomer_def ex_newcomer_marked_def
  ex_record_def ex_profile_linked_def ex_profile_unlinked_def ex_profile_not_found_def
  ex_image_found_def ex_image_missing_def ex_bob_def ex_teams_found_def ex_teams_broken_def
  ex_fetch_def ex_env_def ex_state_def
  env_linked_def env_image_missing_def env_teams_broken_def env_not_found_def env_unlinked_def
  env_marked_def env_newcomer_def env_newcomer_marked_def env_no_identity_def
  env_image_rejected_def env_save_rejected_def ex_logged_in_def

lemmas url_defs = user_url_def team_url_def image_url_def interpolate_def

lemmas effect_defs = emit_def setCurrentUser_def navigate_def toast_update_def logUserOut_def

lemmas step_defs = fetchRegisteredUser_def resolveImage_def fetchTeams_def getUserInfo_def

subsection \<open>What a run of \<^verbatim>\<open>getUserInfo\<close> leaves behind\<close>

lemma getUserInfo_error_state:
  "getUserInfo e user s = (Inl err, s') \<Longrightarrow> s' = s"
  by (auto simp: getUserInfo_def split: sum.splits)

lemma getUserInfo_events [simp]:
  "events (snd (getUserInfo e user s)) = events s"
  by (auto simp: getUserInfo_def setCurrentUser_def split: sum.splits)

lemma getUserInfo_success_state:
  "getUserInfo e user s = (Inr u, s') \<Longrightarrow>
     isLoggedIn (currentUser s') \<and> truthy (moralisId (currentUser s')) \<and>
     username (currentUser s') = c4Username user \<and> events s' = events s"
  by (auto simp: getUserInfo_def setCurrentUser_def fetchRegisteredUser_def resolveImage_def
      Let_def split: sum.splits promise.splits json.splits if_splits option.splits)

text \<open>\<^verbatim>\<open>getUserInfo\<close> reads the environment through \<^verbatim>\<open>fetch\<close> only, and never the
  marker of the identity.\<close>

lemma getUserInfo_frame:
  assumes "fetch e' = fetch e"
  shows "getUserInfo e' (user\<lparr>handlesPendingConfirmation := h\<rparr>) s = getUserInfo e user s"
proof -
  let ?u = "user\<lparr>handlesPendingConfirmation := h\<rparr>"
  have a: "fetchRegisteredUser e' ?u = fetchRegisteredUser e user"
    using assms by (simp add: fetchRegisteredUser_def)
  have b: "resolveImage e' = resolveImage e"
    unfolding resolveImage_def assms by (rule refl)
  have c: "fetchTeams e' ?u = fetchTeams e user"
    using assms by (simp add: fetchTeams_def)
  show ?thesis
    unfolding getUserInfo_def a b c by (simp split: sum.splits)
qed

subsection \<open>\<^verbatim>\<open>connectWallet\<close> once the identity is known\<close>

lemma connectWallet_identity:
  assumes "current e = Some user"
  shows "connectWallet e s =
     (let s1 = (if handlesPendingConfirmation user \<noteq> None
                     then navigate ''/confirm-account'' s else s)
           in if \<not> truthy (c4Username user) then
                (case findUser e of
                   Rejects \<Rightarrow> (Inl Rejected, s1)
                 | Resolves associatedHandles \<Rightarrow>
                     (case associatedHandles of
                        None \<Rightarrow> (Inr None, navigate ''/register'' (logUserOut s1))
                      | Some hs \<Rightarrow>
                          if length hs < 1
                          then (Inr None, navigate ''/register'' (logUserOut s1))
                          else
                            (let s2 = emit UserSave (emit (UserSet hs) s1) in
                             case save e (user\<lparr>handlesPendingConfirmation := Some hs\<rparr>) of
                               Rejects \<Rightarrow> (Inl Rejected, s2)
                             | Resolves _ \<Rightarrow>
                                 (Inr (Some ''connected''),
                                  navigate ''/confirm-account'' s2))))
              else
                (case getUserInfo e user s1 of
                   (Inl err, s2) \<Rightarrow> (Inl err, s2)
                 | (Inr _, s2) \<Rightarrow> (Inr (Some ''connected''), s2)))"
  using assms unfolding connectWallet_def by simp

subsection \<open>The session invariant\<close>

lemma session_inv_default: "session_inv DEFAULT_STATE"
  by (simp add: session_inv_def DEFAULT_STATE_def truthy_def)

lemma getUserInfo_inv:
  assumes "getUserInfo e user s = (r, s')"
    and "truthy (c4Username user)" and "session_inv (currentUser s)"
  shows "session_inv (currentUser s')"
proof (cases r)
  case (Inl err)
  with assms(1) have "s' = s" by (simp add: getUserInfo_error_state)
  with assms(3) show ?thesis by simp
next
  case (Inr u)
  with assms(1) getUserInfo_success_state [of e user s u s'] assms(2)
  show ?thesis by (simp add: session_inv_def)
qed

lemma logUserOut_inv: "session_inv (currentUser (logUserOut s))"
  by (simp add: effect_defs session_inv_default)

lemma connectWallet_inv:
  assumes "connectWallet e s = (r, s')" and "session_inv (currentUser s)"
  shows "session_inv (currentUser s')"
proof (cases "current e")
  case None
  with assms(1) show ?thesis by (auto simp: connectWallet_def logUserOut_inv)
next
  case (Some user)
  let ?s1 = "if handlesPendingConfirmation user \<noteq> None
             then navigate ''/confirm-account'' s else s"
  have s1: "session_inv (currentUser ?s1)"
    using assms(2) by (simp add: effect_defs)
  show ?thesis
  proof (cases "truthy (c4Username user)")
    case True
    obtain r2 s2 where g: "getUserInfo e user ?s1 = (r2, s2)"
      by (cases "getUserInfo e user ?s1")
    from getUserInfo_inv [OF g True s1] have "session_inv (currentUser s2)" .
    moreover from assms(1) Some True g have "s' = s2"
      by (cases r2) (simp_all add: connectWallet_identity Let_def del: not_None_eq)
    ultimately show ?thesis by simp
  next
    case False
    with assms Some show ?thesis
      by (auto simp: connectWallet_identity Let_def effect_defs session_inv_default
          split: promise.splits option.splits if_splits)
  qed
qed

lemma checkForUser_inv:
  assumes "session_inv (currentUser s)"
  shows "session_inv (currentUser (checkForUser e s))"
proof (cases "isAuthenticated e \<and> (\<exists>user. current e = Some user \<and> truthy (c4Username user))")
  case True
  then obtain user where u: "isAuthenticated e" "current e = Some user" "truthy (c4Username user)"
    by blast
  obtain r2 s2 where g: "getUserInfo e user s = (r2, s2)" by (cases "getUserInfo e user s")
  from getUserInfo_inv [OF g u(3) assms] have "session_inv (currentUser s2)" .
  with u g show ?thesis
    by (simp add: checkForUser_def emit_def split: sum.splits)
next
  case False
  with assms show ?thesis
    by (auto simp: checkForUser_def effect_defs session_inv_default split: option.splits)
qed

lemma handleLogin_inv:
  assumes "session_inv (currentUser s)"
  shows "session_inv (currentUser (handleLogin e prov s))"
proof -
  let ?s0 = "emit (ToastLoading ''Logging in...'') s"
  have s0: "session_inv (currentUser ?s0)"
    using assms by (simp add: emit_def)
  obtain r1 s1 where c: "connectWallet e ?s0 = (r1, s1)" by (cases "connectWallet e ?s0")
  from connectWallet_inv [OF c s0] have s1: "session_inv (currentUser s1)" .
  from c s0 s1 show ?thesis
    by (auto simp: handleLogin_def Let_def effect_defs session_inv_default
        split: promise.splits option.splits sum.splits)
qed

text \<open>
  Claim C3. The session is logged in exactly when its \<^verbatim>\<open>moralisId\<close> and its
  \<^verbatim>\<open>username\<close> are both non-empty. \<^verbatim>\<open>DEFAULT_STATE\<close> satisfies this, and
  \<^verbatim>\<open>getUserInfo\<close> keeps it when it is called with a non-empty handle, which is how both
  of its callers call it; so do \<^verbatim>\<open>logUserOut\<close>, \<^verbatim>\<open>connectWallet\<close>,
  \<^verbatim>\<open>checkForUser\<close> and \<^verbatim>\<open>handleLogin\<close>, in every environment.
\<close>

theorem session_invariant:
  "session_inv DEFAULT_STATE \<and>
   (truthy (c4Username user) \<and> session_inv (currentUser s) \<longrightarrow>
      session_inv (currentUser (snd (getUserInfo e user s)))) \<and>
   (session_inv (currentUser s) \<longrightarrow>
      session_inv (currentUser (logUserOut s)) \<and>
      session_inv (currentUser (snd (connectWallet e s))) \<and>
      session_inv (currentUser (checkForUser e s)) \<and>
      session_inv (currentUser (handleLogin e prov s)))"
  using session_inv_default getUserInfo_inv [of e user s] logUserOut_inv [of s]
    connectWallet_inv [of e s] checkForUser_inv [of s e] handleLogin_inv [of s e prov]
  by (metis prod.collapse)

theorem session_invariant_witness:
  "truthy (c4Username ex_alice) \<and> session_inv (currentUser ex_state) \<and>
   session_inv (currentUser (snd (getUserInfo env_linked ex_alice ex_state))) \<and>
   isLoggedIn (currentUser (snd (getUserInfo env_linked ex_alice ex_state))) \<and>
   session_inv (currentUser (snd (connectWallet env_linked ex_state)))"
proof -
  have h1: "truthy (c4Username ex_alice)" by (simp add: ex_defs truthy_def)
  have h2: "session_inv (currentUser ex_state)" by (simp add: ex_state_def session_inv_default)
  have h3: "isLoggedIn (currentUser (snd (getUserInfo env_linked ex_alice ex_state)))"
    by (simp add: ex_defs step_defs url_defs ok_def truthy_def setCurrentUser_def)
  from session_invariant [of ex_alice ex_state env_linked Metamask] h1 h2 h3
  show ?thesis by blast
qed

subsection \<open>Profile resolution\<close>

text \<open>
  Claim C4. When the profile endpoint answers with a status that is not ok and the body
  \<^verbatim>\<open>{error: "User not found"}\<close>, \<^verbatim>\<open>getUserInfo\<close> throws \<^verbatim>\<open>RegistrationPending\<close> and
  the state is the one it was called in: no \<^verbatim>\<open>setCurrentUser\<close> has run, and a session
  that was the empty sentinel still is.
\<close>

theorem getUserInfo_user_not_found:
  assumes "fetch e (user_url (c4Username user)) = Resolves r"
    and "\<not> ok r"
    and "json r = Resolves (JObject body)"
    and "j_error body = Some ''User not found''"
  shows "getUserInfo e user s = (Inl (Thrown RegistrationPending), s) \<and>
         (currentUser s = DEFAULT_STATE \<longrightarrow>
            currentUser (snd (getUserInfo e user s)) = DEFAULT_STATE)"
  using assms by (simp add: getUserInfo_def fetchRegisteredUser_def)

theorem getUserInfo_user_not_found_witness:
  "status ex_profile_not_found = 404 \<and>
   getUserInfo env_not_found ex_alice ex_state = (Inl (Thrown RegistrationPending), ex_state) \<and>
   currentUser (snd (getUserInfo env_not_found ex_alice ex_state)) = DEFAULT_STATE"
proof -
  have h1: "fetch env_not_found (user_url (c4Username ex_alice)) = Resolves ex_profile_not_found"
    by (simp add: ex_defs)
  have h2: "\<not> ok ex_profile_not_found"
    by (simp add: ex_defs ok_def)
  have h3: "json ex_profile_not_found = Resolves (JObject \<lparr>j_error = Some ''User not found'',
      j_moralisId = None, j_image = None, j_link = None\<rparr>)"
    by (simp add: ex_defs)
  have h4: "currentUser ex_state = DEFAULT_STATE"
    by (simp add: ex_defs)
  from getUserInfo_user_not_found [OF h1 h2 h3, of ex_state] h4 show ?thesis
    by (simp add: ex_profile_not_found_def)
qed

text \<open>
  Claim C5. When the profile endpoint answers ok with a record whose \<^verbatim>\<open>moralisId\<close> is
  missing or empty, \<^verbatim>\<open>getUserInfo\<close> throws \<^verbatim>\<open>ConnectionPending\<close> and the state is the one
  it was called in, so a session that was empty still is.
\<close>

theorem getUserInfo_not_linked:
  assumes "fetch e (user_url (c4Username user)) = Resolves r"
    and "ok r"
    and "json r = Resolves (JObject registeredUser)"
    and "\<not> truthy (j_moralisId registeredUser)"
  shows "getUserInfo e user s = (Inl (Thrown ConnectionPending), s) \<and>
         (currentUser s = DEFAULT_STATE \<longrightarrow>
            currentUser (snd (getUserInfo e user s)) = DEFAULT_STATE)"
  using assms by (simp add: getUserInfo_def fetchRegisteredUser_def)

theorem getUserInfo_not_linked_witness:
  "\<not> truthy (j_moralisId (ex_record\<lparr>j_moralisId := None\<rparr>)) \<and>
   getUserInfo env_unlinked ex_alice ex_state = (Inl (Thrown ConnectionPending), ex_state) \<and>
   currentUser (snd (getUserInfo env_unlinked ex_alice ex_state)) = DEFAULT_STATE"
proof -
  have h1: "fetch env_unlinked (user_url (c4Username ex_alice)) = Resolves ex_profile_unlinked"
    by (simp add: ex_defs)
  have h2: "ok ex_profile_unlinked"
    by (simp add: ex_defs ok_def)
  have h3: "json ex_profile_unlinked = Resolves (JObject (ex_record\<lparr>j_moralisId := None\<rparr>))"
    by (simp add: ex_defs)
  have h4: "\<not> truthy (j_moralisId (ex_record\<lparr>j_moralisId := None\<rparr>))"
    by (simp add: truthy_def)
  have h5: "currentUser ex_state = DEFAULT_STATE"
    by (simp add: ex_defs)
  from getUserInfo_not_linked [OF h1 h2 h3 h4, of ex_state] h4 h5 show ?thesis
    by simp
qed

text \<open>
  Claim C6. When \<^verbatim>\<open>getUserInfo\<close> reaches the team query (the profile record was
  fetched and the avatar step did not throw) and the team endpoint answers with a status
  other than 200, the team step gives the empty list, \<^verbatim>\<open>getUserInfo\<close> returns normally and
  the session it sets has \<^verbatim>\<open>teams = []\<close>.
\<close>

theorem getUserInfo_teams_not_200:
  assumes "fetchRegisteredUser e user = Inr fetched"
    and "resolveImage e fetched = Inr registeredUser"
    and "fetch e (team_url (c4Username user)) = Resolves teamsResponse"
    and "status teamsResponse \<noteq> 200"
  shows "fetchTeams e user = Inr (JArray []) \<and>
         fst (getUserInfo e user s) = Inr () \<and>
         teams (currentUser (snd (getUserInfo e user s))) = JArray [] \<and>
         isLoggedIn (currentUser (snd (getUserInfo e user s)))"
  using assms by (simp add: getUserInfo_def fetchTeams_def setCurrentUser_def)

theorem getUserInfo_teams_not_200_witness:
  "status ex_teams_broken = 500 \<and>
   fst (getUserInfo env_teams_broken ex_alice ex_state) = Inr () \<and>
   teams (currentUser (snd (getUserInfo env_teams_broken ex_alice ex_state))) = JArray []"
proof -
  have h1: "fetchRegisteredUser env_teams_broken ex_alice = Inr ex_record"
    by (simp add: ex_defs fetchRegisteredUser_def url_defs ok_def truthy_def)
  have h2: "resolveImage env_teams_broken ex_record =
      Inr (ex_record\<lparr>j_image := Some (image_url ''x.png'')\<rparr>)"
    by (simp add: ex_defs resolveImage_def url_defs ok_def)
  have h3: "fetch env_teams_broken (team_url (c4Username ex_alice)) = Resolves ex_teams_broken"
    by (simp add: ex_defs url_defs)
  have h4: "status ex_teams_broken \<noteq> 200"
    by (simp add: ex_defs)
  from getUserInfo_teams_not_200 [OF h1 h2 h3 h4, of ex_state] show ?thesis
    by (simp add: ex_teams_broken_def)
qed

text \<open>The session gets the image of the record the avatar step returns.\<close>

lemma getUserInfo_img:
  assumes "fetchRegisteredUser e user = Inr fetched"
    and "resolveImage e fetched = Inr registeredUser"
    and "fetchTeams e user = Inr ts"
  shows "fst (getUserInfo e user s) = Inr () \<and>
         img (currentUser (snd (getUserInfo e user s))) = or_null (j_image registeredUser)"
  using assms by (simp add: getUserInfo_def setCurrentUser_def)

text \<open>
  Claim C9, as the code has it. When the profile record has a non-empty image path, the
  avatar step of \<^verbatim>\<open>getUserInfo\<close> fetches the raw-content URL made of the fixed prefix and
  the path without its first two characters, and its result depends on the outcome for
  that URL alone. If the answer is ok, the record's image becomes the URL of the response,
  and that is the \<^verbatim>\<open>img\<close> of the session set; if the answer is not ok, the record is left
  as it was and the session gets the original path; if the request is rejected, so that
  there is no answer, \<^verbatim>\<open>getUserInfo\<close> throws that rejection and sets no session.
\<close>

theorem getUserInfo_avatar:
  assumes "fetchRegisteredUser e user = Inr registeredUser"
    and "j_image registeredUser = Some p"
    and "p \<noteq> []"
  shows "(fetch e (image_url (drop 2 p)) = Resolves imgResponse \<and> ok imgResponse \<longrightarrow>
            resolveImage e registeredUser =
              Inr (registeredUser\<lparr>j_image := Some (url imgResponse)\<rparr>) \<and>
            (fetchTeams e user = Inr ts \<longrightarrow>
               fst (getUserInfo e user s) = Inr () \<and>
               img (currentUser (snd (getUserInfo e user s))) = or_null (Some (url imgResponse)))) \<and>
         (fetch e (image_url (drop 2 p)) = Resolves imgResponse \<and> \<not> ok imgResponse \<longrightarrow>
            resolveImage e registeredUser = Inr registeredUser \<and>
            (fetchTeams e user = Inr ts \<longrightarrow>
               fst (getUserInfo e user s) = Inr () \<and>
               img (currentUser (snd (getUserInfo e user s))) = Some p)) \<and>
         (fetch e (image_url (drop 2 p)) = Rejects \<longrightarrow>
            resolveImage e registeredUser = Inl Rejected \<and>
            getUserInfo e user s = (Inl Rejected, s)) \<and>
         (\<forall>e'. fetch e' (image_url (drop 2 p)) = fetch e (image_url (drop 2 p)) \<longrightarrow>
            resolveImage e' registeredUser = resolveImage e registeredUser)"
proof -
  have keep: "or_null (Some p) = Some p"
    using assms(3) by (simp add: or_null_def truthy_def)
  have c1: "fetch e (image_url (drop 2 p)) = Resolves imgResponse \<and> ok imgResponse \<longrightarrow>
            resolveImage e registeredUser =
              Inr (registeredUser\<lparr>j_image := Some (url imgResponse)\<rparr>) \<and>
            (fetchTeams e user = Inr ts \<longrightarrow>
               fst (getUserInfo e user s) = Inr () \<and>
               img (currentUser (snd (getUserInfo e user s))) = or_null (Some (url imgResponse)))"
  proof (intro impI, elim conjE)
    assume "fetch e (image_url (drop 2 p)) = Resolves imgResponse" "ok imgResponse"
    then have r: "resolveImage e registeredUser =
        Inr (registeredUser\<lparr>j_image := Some (url imgResponse)\<rparr>)"
      using assms(2,3) by (simp add: resolveImage_def)
    from r getUserInfo_img [OF assms(1) r, of ts s]
    show "resolveImage e registeredUser =
              Inr (registeredUser\<lparr>j_image := Some (url imgResponse)\<rparr>) \<and>
            (fetchTeams e user = Inr ts \<longrightarrow>
               fst (getUserInfo e user s) = Inr () \<and>
               img (currentUser (snd (getUserInfo e user s))) = or_null (Some (url imgResponse)))"
      by simp
  qed
  have c2: "fetch e (image_url (drop 2 p)) = Resolves imgResponse \<and> \<not> ok imgResponse \<longrightarrow>
            resolveImage e registeredUser = Inr registeredUser \<and>
            (fetchTeams e user = Inr ts \<longrightarrow>
               fst (getUserInfo e user s) = Inr () \<and>
               img (currentUser (snd (getUserInfo e user s))) = Some p)"
  proof (intro impI, elim conjE)
    assume "fetch e (image_url (drop 2 p)) = Resolves imgResponse" "\<not> ok imgResponse"
    then have r: "resolveImage e registeredUser = Inr registeredUser"
      using assms(2,3) by (simp add: resolveImage_def)
    from r getUserInfo_img [OF assms(1) r, of ts s] assms(2) keep
    show "resolveImage e registeredUser = Inr registeredUser \<and>
            (fetchTeams e user = Inr ts \<longrightarrow>
               fst (getUserInfo e user s) = Inr () \<and>
               img (currentUser (snd (getUserInfo e user s))) = Some p)"
      by simp
  qed
  have c3: "fetch e (image_url (drop 2 p)) = Rejects \<longrightarrow>
            resolveImage e registeredUser = Inl Rejected \<and>
            getUserInfo e user s = (Inl Rejected, s)"
  proof
    assume "fetch e (image_url (drop 2 p)) = Rejects"
    then have r: "resolveImage e registeredUser = Inl Rejected"
      using assms(2,3) by (simp add: resolveImage_def)
    with assms(1) show "resolveImage e registeredUser = Inl Rejected \<and>
            getUserInfo e user s = (Inl Rejected, s)"
      by (simp add: getUserInfo_def)
  qed
  have c4: "\<forall>e'. fetch e' (image_url (drop 2 p)) = fetch e (image_url (drop 2 p)) \<longrightarrow>
            resolveImage e' registeredUser = resolveImage e registeredUser"
    using assms(2,3) by (simp add: resolveImage_def)
  from c1 c2 c3 c4 show ?thesis by (intro conjI)
qed

theorem getUserInfo_avatar_witness:
  "fetchRegisteredUser env_linked ex_alice = Inr ex_record \<and>
   j_image ex_record = Some ''./x.png'' \<and>
   image_url (drop 2 ''./x.png'') =
     ''https://raw.githubusercontent.com/code-423n4/code423n4.com/main/_data/handles/x.png'' \<and>
   ok ex_image_found \<and>
   resolveImage env_linked ex_record = Inr (ex_record\<lparr>j_image := Some (url ex_image_found)\<rparr>) \<and>
   img (currentUser (snd (getUserInfo env_linked ex_alice ex_state))) =
     Some ''https://raw.githubusercontent.com/code-423n4/code423n4.com/main/_data/handles/x.png'' \<and>
   \<not> ok ex_image_missing \<and>
   resolveImage env_image_missing ex_record = Inr ex_record \<and>
   img (currentUser (snd (getUserInfo env_image_missing ex_alice ex_state))) = Some ''./x.png'' \<and>
   fetch env_image_rejected (image_url (drop 2 ''./x.png'')) = Rejects \<and>
   getUserInfo env_image_rejected ex_alice ex_state = (Inl Rejected, ex_state) \<and>
   resolveImage env_teams_broken ex_record = resolveImage env_linked ex_record"
proof -
  have f1: "fetchRegisteredUser env_linked ex_alice = Inr ex_record"
    and f2: "fetchRegisteredUser env_image_missing ex_alice = Inr ex_record"
    and f3: "fetchRegisteredUser env_image_rejected ex_alice = Inr ex_record"
    by (simp_all add: ex_defs fetchRegisteredUser_def url_defs ok_def truthy_def)
  have h1: "j_image ex_record = Some ''./x.png''" by (simp add: ex_defs)
  have h2: "''./x.png'' \<noteq> []" by simp
  have h3: "fetch env_linked (image_url (drop 2 ''./x.png'')) = Resolves ex_image_found"
    by (simp add: ex_defs url_defs)
  have h4: "fetch env_image_missing (image_url (drop 2 ''./x.png'')) = Resolves ex_image_missing"
    by (simp add: ex_defs url_defs)
  have h5: "ok ex_image_found" "\<not> ok ex_image_missing"
    by (simp_all add: ex_defs ok_def)
  have h6: "image_url (drop 2 ''./x.png'') =
     ''https://raw.githubusercontent.com/code-423n4/code423n4.com/main/_data/handles/x.png''"
    by (simp add: image_url_def)
  have h7: "fetch env_teams_broken (image_url (drop 2 ''./x.png'')) =
      fetch env_linked (image_url (drop 2 ''./x.png''))"
    by (simp add: ex_defs url_defs)
  have h8: "fetch env_image_rejected (image_url (drop 2 ''./x.png'')) = Rejects"
    by (simp add: ex_defs url_defs)
  have t1: "fetchTeams env_linked ex_alice = Inr (JArray [ex_bob])"
    and t2: "fetchTeams env_image_missing ex_alice = Inr (JArray [ex_bob])"
    by (simp_all add: ex_defs fetchTeams_def url_defs)
  have u: "url ex_image_found =
     ''https://raw.githubusercontent.com/code-423n4/code423n4.com/main/_data/handles/x.png''"
    "or_null (Some (url ex_image_found)) = Some (url ex_image_found)"
    by (simp_all add: ex_defs image_url_def or_null_def truthy_def)
  note a = getUserInfo_avatar [OF f1 h1 h2, where imgResponse = ex_image_found
      and ts = "JArray [ex_bob]" and s = ex_state]
  note b = getUserInfo_avatar [OF f2 h1 h2, where imgResponse = ex_image_missing
      and ts = "JArray [ex_bob]" and s = ex_state]
  note c = getUserInfo_avatar [OF f3 h1 h2, where s = ex_state]
  from a h3 h5(1) t1 u have a1:
    "resolveImage env_linked ex_record = Inr (ex_record\<lparr>j_image := Some (url ex_image_found)\<rparr>)"
    "img (currentUser (snd (getUserInfo env_linked ex_alice ex_state))) =
       Some ''https://raw.githubusercontent.com/code-423n4/code423n4.com/main/_data/handles/x.png''"
    by simp_all
  from b h4 h5(2) t2 have b1:
    "resolveImage env_image_missing ex_record = Inr ex_record"
    "img (currentUser (snd (getUserInfo env_image_missing ex_alice ex_state))) = Some ''./x.png''"
    by simp_all
  from c h8 have c1: "getUserInfo env_image_rejected ex_alice ex_state = (Inl Rejected, ex_state)"
    by simp
  from a h7 have d1: "resolveImage env_teams_broken ex_record = resolveImage env_linked ex_record"
    by blast
  from f1 h1 h5 h6 h8 a1 b1 c1 d1 show ?thesis by simp
qed

text \<open>
  Claim C9 as stated fails where the probe fails by rejection: lines 172 to 174 have no
  \<^verbatim>\<open>try\<close>, so the original path is not kept; \<^verbatim>\<open>getUserInfo\<close> is aborted and the state
  is left as it was.
\<close>

theorem getUserInfo_avatar_counterexample:
  "fetchRegisteredUser env_image_rejected ex_alice = Inr ex_record \<and>
   j_image ex_record = Some ''./x.png'' \<and>
   fetch env_image_rejected (image_url (drop 2 ''./x.png'')) = Rejects \<and>
   resolveImage env_image_rejected ex_record = Inl Rejected \<and>
   getUserInfo env_image_rejected ex_alice ex_state = (Inl Rejected, ex_state)"
  by (simp add: ex_defs step_defs url_defs ok_def truthy_def)

subsection \<open>Logging out\<close>

text \<open>
  Claim C7. From any state, \<^verbatim>\<open>logUserOut\<close> leaves the session at \<^verbatim>\<open>DEFAULT_STATE\<close> and
  has called the SDK's \<^verbatim>\<open>logout()\<close>, which is its one effect on the outside; it has no
  failing branch.
\<close>

theorem logUserOut_resets:
  "currentUser (logUserOut s) = DEFAULT_STATE \<and> events (logUserOut s) = events s @ [Logout]"
  by (simp add: effect_defs)

subsection \<open>Session restore\<close>

text \<open>
  Claim C8, as the code has it. When the SDK reports an authenticated session,
  \<^verbatim>\<open>checkForUser\<close> logs out exactly when \<^verbatim>\<open>Moralis.User.current()\<close> gives no identity.
  When the identity is there but no \<^verbatim>\<open>moralisId\<close> can be resolved for it, the restore does
  not log out: an identity without a handle leaves the state as it was, and an identity
  with a handle whose profile record has no \<^verbatim>\<open>moralisId\<close> only gets the error written to
  the console.
\<close>

theorem checkForUser_restore:
  assumes "isAuthenticated e"
  shows "(current e = None \<longrightarrow> checkForUser e s = logUserOut s) \<and>
         (current e = Some user \<and> \<not> truthy (c4Username user) \<longrightarrow> checkForUser e s = s) \<and>
         (current e = Some user \<and> truthy (c4Username user) \<and>
          fetch e (user_url (c4Username user)) = Resolves r \<and> ok r \<and>
          json r = Resolves (JObject registeredUser) \<and> \<not> truthy (j_moralisId registeredUser)
            \<longrightarrow> checkForUser e s = emit ConsoleError s)"
  using assms by (auto simp: checkForUser_def getUserInfo_def fetchRegisteredUser_def)

theorem checkForUser_restore_witness:
  "isAuthenticated env_no_identity \<and> current env_no_identity = None \<and>
   currentUser (checkForUser env_no_identity ex_logged_in) = DEFAULT_STATE \<and>
   events (checkForUser env_no_identity ex_logged_in) = [Logout] \<and>
   current env_newcomer = Some ex_newcomer \<and>
   checkForUser env_newcomer ex_logged_in = ex_logged_in \<and>
   current env_unlinked = Some ex_alice \<and>
   checkForUser env_unlinked ex_logged_in = emit ConsoleError ex_logged_in"
proof -
  have a: "isAuthenticated env_no_identity" "current env_no_identity = None"
    by (simp_all add: ex_defs)
  have b: "isAuthenticated env_newcomer" "current env_newcomer = Some ex_newcomer"
    "\<not> truthy (c4Username ex_newcomer)"
    by (simp_all add: ex_defs truthy_def)
  have c: "isAuthenticated env_unlinked" "current env_unlinked = Some ex_alice"
    "truthy (c4Username ex_alice)"
    "fetch env_unlinked (user_url (c4Username ex_alice)) = Resolves ex_profile_unlinked"
    "ok ex_profile_unlinked"
    "json ex_profile_unlinked = Resolves (JObject (ex_record\<lparr>j_moralisId := None\<rparr>))"
    "\<not> truthy (j_moralisId (ex_record\<lparr>j_moralisId := None\<rparr>))"
    by (simp_all add: ex_defs truthy_def ok_def)
  have d: "events ex_logged_in = []"
    by (simp add: ex_logged_in_def ex_state_def)
  from checkForUser_restore [OF a(1), where s = ex_logged_in] a(2)
  have 1: "checkForUser env_no_identity ex_logged_in = logUserOut ex_logged_in" by simp
  from checkForUser_restore [OF b(1), where s = ex_logged_in and user = ex_newcomer] b
  have 2: "checkForUser env_newcomer ex_logged_in = ex_logged_in" by simp
  from checkForUser_restore [OF c(1), where s = ex_logged_in and user = ex_alice
      and r = ex_profile_unlinked and registeredUser = "ex_record\<lparr>j_moralisId := None\<rparr>"] c
  have 3: "checkForUser env_unlinked ex_logged_in = emit ConsoleError ex_logged_in" by simp
  from 1 2 3 a b c d show ?thesis by (simp add: effect_defs)
qed

text \<open>
  Claim C8 as stated fails: in a logged-in session, with the identity \<^verbatim>\<open>alice\<close> present
  and a profile record without \<^verbatim>\<open>moralisId\<close>, the restore calls no \<^verbatim>\<open>logout()\<close> and the
  session stays logged in.
\<close>

theorem checkForUser_restore_counterexample:
  "isAuthenticated env_unlinked \<and> current env_unlinked = Some ex_alice \<and>
   fst (getUserInfo env_unlinked ex_alice ex_logged_in) = Inl (Thrown ConnectionPending) \<and>
   Logout \<notin> set (events (checkForUser env_unlinked ex_logged_in)) \<and>
   isLoggedIn (currentUser (checkForUser env_unlinked ex_logged_in)) \<and>
   currentUser (checkForUser env_unlinked ex_logged_in) \<noteq> DEFAULT_STATE"
  by (simp add: checkForUser_def ex_defs truthy_def Let_def effect_defs step_defs url_defs
      ok_def DEFAULT_STATE_def)

subsection \<open>Connecting the wallet\<close>

text \<open>
  Claim C1, as the code has it. When the identity has \<^verbatim>\<open>handlesPendingConfirmation\<close> set,
  the first effect of \<^verbatim>\<open>connectWallet\<close> is the navigation to \<^verbatim>\<open>/confirm-account\<close>, and
  the function then goes on exactly as it does for the same identity without the marker,
  from the state after that navigation. So the session is left as it was except in two
  cases: the identity has no handle and no associated handle is found (it is logged out,
  the session becomes \<^verbatim>\<open>DEFAULT_STATE\<close>, and \<^verbatim>\<open>/register\<close> is navigated to), or the
  identity has a handle and its profile resolves (the session becomes the resolved,
  logged-in one).
\<close>

theorem connectWallet_marker_set:
  assumes "current e = Some user"
    and "handlesPendingConfirmation user \<noteq> None"
  shows "connectWallet e s =
           connectWallet (e\<lparr>current := Some (user\<lparr>handlesPendingConfirmation := None\<rparr>)\<rparr>)
             (navigate ''/confirm-account'' s) \<and>
         (\<exists>rest. events (snd (connectWallet e s)) =
            events s @ Navigate ''/confirm-account'' # rest) \<and>
         (currentUser (snd (connectWallet e s)) \<noteq> currentUser s \<longrightarrow>
            (\<not> truthy (c4Username user) \<and> fst (connectWallet e s) = Inr None \<and>
             currentUser (snd (connectWallet e s)) = DEFAULT_STATE) \<or>
            (truthy (c4Username user) \<and> fst (connectWallet e s) = Inr (Some ''connected'') \<and>
             isLoggedIn (currentUser (snd (connectWallet e s))))) \<and>
         (\<not> truthy (c4Username user) \<and>
          (findUser e = Resolves None \<or> findUser e = Resolves (Some [])) \<longrightarrow>
            connectWallet e s =
              (Inr None, navigate ''/register'' (logUserOut (navigate ''/confirm-account'' s)))) \<and>
         (truthy (c4Username user) \<longrightarrow>
            connectWallet e s =
              (case getUserInfo e user (navigate ''/confirm-account'' s) of
                 (Inl err, s2) \<Rightarrow> (Inl err, s2)
               | (Inr _, s2) \<Rightarrow> (Inr (Some ''connected''), s2)))"
proof -
  let ?e' = "e\<lparr>current := Some (user\<lparr>handlesPendingConfirmation := None\<rparr>)\<rparr>"
  let ?s1 = "navigate ''/confirm-account'' s"
  have cur': "current ?e' = Some (user\<lparr>handlesPendingConfirmation := None\<rparr>)" by simp
  have g: "getUserInfo ?e' (user\<lparr>handlesPendingConfirmation := None\<rparr>) t =
      getUserInfo e user t" for t
    by (rule getUserInfo_frame) simp
  have eq: "connectWallet e s = connectWallet ?e' ?s1"
  proof (cases "truthy (c4Username user)")
    case True
    with assms(2) show ?thesis
      by (simp add: connectWallet_identity [OF assms(1)] connectWallet_identity [OF cur'] g)
  next
    case False
    with assms(2) show ?thesis
      by (simp add: connectWallet_identity [OF assms(1)] connectWallet_identity [OF cur'] Let_def
          split: promise.splits option.splits)
  qed
  have rest: "(\<exists>rest. events (snd (connectWallet e s)) =
            events s @ Navigate ''/confirm-account'' # rest) \<and>
         (currentUser (snd (connectWallet e s)) \<noteq> currentUser s \<longrightarrow>
            (\<not> truthy (c4Username user) \<and> fst (connectWallet e s) = Inr None \<and>
             currentUser (snd (connectWallet e s)) = DEFAULT_STATE) \<or>
            (truthy (c4Username user) \<and> fst (connectWallet e s) = Inr (Some ''connected'') \<and>
             isLoggedIn (currentUser (snd (connectWallet e s)))))"
  proof (cases "truthy (c4Username user)")
    case False
    with assms show ?thesis
      by (auto simp: connectWallet_identity Let_def effect_defs
          split: promise.splits option.splits)
  next
    case True
    obtain r2 s2 where g: "getUserInfo e user ?s1 = (r2, s2)" by (cases "getUserInfo e user ?s1")
    have cw: "connectWallet e s =
        (case r2 of Inl err \<Rightarrow> (Inl err, s2) | Inr _ \<Rightarrow> (Inr (Some ''connected''), s2))"
      using assms True g by (simp add: connectWallet_identity)
    show ?thesis
    proof (cases r2)
      case (Inl err)
      with g have "s2 = ?s1" by (simp add: getUserInfo_error_state)
      with cw Inl show ?thesis by (simp add: effect_defs)
    next
      case (Inr u)
      with g getUserInfo_success_state [of e user ?s1 u s2]
      have "isLoggedIn (currentUser s2)" and "events s2 = events ?s1" by simp_all
      with cw Inr True show ?thesis by (simp add: effect_defs)
    qed
  qed
  have out: "\<not> truthy (c4Username user) \<and>
          (findUser e = Resolves None \<or> findUser e = Resolves (Some [])) \<longrightarrow>
            connectWallet e s =
              (Inr None, navigate ''/register'' (logUserOut (navigate ''/confirm-account'' s)))"
    using assms by (auto simp: connectWallet_identity Let_def)
  have res: "truthy (c4Username user) \<longrightarrow>
            connectWallet e s =
              (case getUserInfo e user (navigate ''/confirm-account'' s) of
                 (Inl err, s2) \<Rightarrow> (Inl err, s2)
               | (Inr _, s2) \<Rightarrow> (Inr (Some ''connected''), s2))"
    using assms by (simp add: connectWallet_identity Let_def)
  from eq rest out res show ?thesis by blast
qed

theorem connectWallet_marker_set_witness:
  "current env_newcomer_marked = Some ex_newcomer_marked \<and>
   handlesPendingConfirmation ex_newcomer_marked \<noteq> None \<and>
   connectWallet env_newcomer_marked ex_state =
     connectWallet (env_newcomer_marked\<lparr>current := Some ex_newcomer\<rparr>)
       (navigate ''/confirm-account'' ex_state) \<and>
   events (snd (connectWallet env_newcomer_marked ex_state)) =
     [Navigate ''/confirm-account'', UserSet [''bobby''], UserSave, Navigate ''/confirm-account''] \<and>
   currentUser (snd (connectWallet env_newcomer_marked ex_state)) = currentUser ex_state \<and>
   current env_marked = Some ex_alice_marked \<and>
   handlesPendingConfirmation ex_alice_marked \<noteq> None \<and>
   connectWallet env_marked ex_state =
     connectWallet (env_marked\<lparr>current := Some ex_alice\<rparr>)
       (navigate ''/confirm-account'' ex_state) \<and>
   events (snd (connectWallet env_marked ex_state)) = [Navigate ''/confirm-account''] \<and>
   currentUser (snd (connectWallet env_marked ex_state)) \<noteq> currentUser ex_state \<and>
   truthy (c4Username ex_alice_marked) \<and>
   fst (connectWallet env_marked ex_state) = Inr (Some ''connected'') \<and>
   isLoggedIn (currentUser (snd (connectWallet env_marked ex_state)))"
proof -
  have h1: "current env_newcomer_marked = Some ex_newcomer_marked"
    by (simp add: ex_defs)
  have h2: "handlesPendingConfirmation ex_newcomer_marked \<noteq> None"
    by (simp add: ex_defs)
  have h3: "fst (connectWallet env_newcomer_marked ex_state) = Inr (Some ''connected'')"
    by (simp add: connectWallet_def ex_defs truthy_def Let_def)
  have h4: "events (snd (connectWallet env_newcomer_marked ex_state)) =
     [Navigate ''/confirm-account'', UserSet [''bobby''], UserSave, Navigate ''/confirm-account'']"
    by (simp add: connectWallet_def ex_defs truthy_def Let_def effect_defs)
  have h5: "\<not> isLoggedIn (currentUser (snd (connectWallet env_newcomer_marked ex_state)))"
    by (simp add: connectWallet_def ex_defs truthy_def Let_def effect_defs DEFAULT_STATE_def)
  have h6: "ex_newcomer_marked\<lparr>handlesPendingConfirmation := None\<rparr> = ex_newcomer"
    by (simp add: ex_defs)
  have k1: "current env_marked = Some ex_alice_marked"
    by (simp add: ex_defs)
  have k2: "handlesPendingConfirmation ex_alice_marked \<noteq> None"
    by (simp add: ex_defs)
  have k3: "currentUser (snd (connectWallet env_marked ex_state)) \<noteq> currentUser ex_state"
    by (simp add: connectWallet_def ex_defs truthy_def Let_def effect_defs step_defs url_defs
        ok_def DEFAULT_STATE_def)
  have k4: "events (snd (connectWallet env_marked ex_state)) = [Navigate ''/confirm-account'']"
    by (simp add: connectWallet_def ex_defs truthy_def Let_def effect_defs step_defs url_defs
        ok_def)
  have k6: "ex_alice_marked\<lparr>handlesPendingConfirmation := None\<rparr> = ex_alice"
    by (simp add: ex_defs)
  note n = connectWallet_marker_set [OF h1 h2, of ex_state]
  note m = connectWallet_marker_set [OF k1 k2, of ex_state]
  from n h6 have a0: "connectWallet env_newcomer_marked ex_state =
     connectWallet (env_newcomer_marked\<lparr>current := Some ex_newcomer\<rparr>)
       (navigate ''/confirm-account'' ex_state)" by simp
  from n h3 h5
  have a: "currentUser (snd (connectWallet env_newcomer_marked ex_state)) = currentUser ex_state"
    by auto
  from m k6 have b0: "connectWallet env_marked ex_state =
     connectWallet (env_marked\<lparr>current := Some ex_alice\<rparr>)
       (navigate ''/confirm-account'' ex_state)" by simp
  from m k3
  have b: "truthy (c4Username ex_alice_marked) \<and>
     fst (connectWallet env_marked ex_state) = Inr (Some ''connected'') \<and>
     isLoggedIn (currentUser (snd (connectWallet env_marked ex_state)))"
    by (auto simp: ex_defs DEFAULT_STATE_def)
  from a0 a b0 b h1 h2 h4 k1 k2 k3 k4 show ?thesis by simp
qed

text \<open>
  Claim C1 as stated fails: with the marker set on an identity that has the handle
  \<^verbatim>\<open>alice\<close> and a linked profile, \<^verbatim>\<open>connectWallet\<close> navigates to \<^verbatim>\<open>/confirm-account\<close>
  and replaces the session.
\<close>

theorem connectWallet_marker_set_counterexample:
  "current env_marked = Some ex_alice_marked \<and>
   handlesPendingConfirmation ex_alice_marked \<noteq> None \<and>
   Navigate ''/confirm-account'' \<in> set (events (snd (connectWallet env_marked ex_state))) \<and>
   currentUser (snd (connectWallet env_marked ex_state)) \<noteq> currentUser ex_state"
  by (simp add: connectWallet_def ex_defs truthy_def Let_def effect_defs step_defs url_defs
      ok_def DEFAULT_STATE_def)

subsection \<open>Notifications of a login\<close>

lemma toasts_emit [simp]: "toasts (emit ev s) = toasts s @ toast_of ev"
  by (simp add: toasts_def emit_def)

lemma toasts_setCurrentUser [simp]: "toasts (setCurrentUser u s) = toasts s"
  by (simp add: toasts_def setCurrentUser_def)

text \<open>
  Claim C10, as the code has it. The identity exists, has no handle, and the address
  lookup gives at least one handle. When \<^verbatim>\<open>user.save()\<close> resolves, \<^verbatim>\<open>connectWallet\<close> sets
  those handles as \<^verbatim>\<open>handlesPendingConfirmation\<close>, saves, navigates to
  \<^verbatim>\<open>/confirm-account\<close> and returns \<^verbatim>\<open>"connected"\<close> with the session untouched, and
  \<^verbatim>\<open>handleLogin\<close> shows the one notification \<^verbatim>\<open>Logged in\<close>. When \<^verbatim>\<open>user.save()\<close>
  rejects, \<^verbatim>\<open>connectWallet\<close> throws after the set and the save, without that navigation,
  and \<^verbatim>\<open>handleLogin\<close> logs out and shows the generic failure.
\<close>

theorem connectWallet_associated_handles:
  assumes "current e = Some user"
    and "\<not> truthy (c4Username user)"
    and "findUser e = Resolves (Some hs)"
    and "hs \<noteq> []"
  shows "(save e (user\<lparr>handlesPendingConfirmation := Some hs\<rparr>) = Resolves () \<longrightarrow>
           fst (connectWallet e s) = Inr (Some ''connected'') \<and>
           events (snd (connectWallet e s)) =
             events s @
             (if handlesPendingConfirmation user \<noteq> None then [Navigate ''/confirm-account''] else []) @
             [UserSet hs, UserSave, Navigate ''/confirm-account''] \<and>
           currentUser (snd (connectWallet e s)) = currentUser s \<and>
           (authenticate e prov = Resolves (Some u) \<longrightarrow>
              toasts (handleLogin e prov s) =
                toasts s @ [\<lparr>render = msg_logged_in, severity = Success\<rparr>] \<and>
              currentUser (handleLogin e prov s) = currentUser s)) \<and>
         (save e (user\<lparr>handlesPendingConfirmation := Some hs\<rparr>) = Rejects \<longrightarrow>
           fst (connectWallet e s) = Inl Rejected \<and>
           events (snd (connectWallet e s)) =
             events s @
             (if handlesPendingConfirmation user \<noteq> None then [Navigate ''/confirm-account''] else []) @
             [UserSet hs, UserSave] \<and>
           currentUser (snd (connectWallet e s)) = currentUser s \<and>
           (authenticate e prov = Resolves (Some u) \<longrightarrow>
              toasts (handleLogin e prov s) =
                toasts s @ [\<lparr>render = msg_failure, severity = Error\<rparr>] \<and>
              currentUser (handleLogin e prov s) = DEFAULT_STATE \<and>
              Logout \<in> set (events (handleLogin e prov s))))"
proof (intro conjI impI)
  assume sv: "save e (user\<lparr>handlesPendingConfirmation := Some hs\<rparr>) = Resolves ()"
  have cw: "connectWallet e s =
      (Inr (Some ''connected''),
       navigate ''/confirm-account'' (emit UserSave (emit (UserSet hs)
         (if handlesPendingConfirmation user \<noteq> None
          then navigate ''/confirm-account'' s else s))))" for s
    using assms sv by (simp add: connectWallet_identity Let_def)
  show "fst (connectWallet e s) = Inr (Some ''connected'')"
    by (simp add: cw)
  show "events (snd (connectWallet e s)) =
             events s @
             (if handlesPendingConfirmation user \<noteq> None then [Navigate ''/confirm-account''] else []) @
             [UserSet hs, UserSave, Navigate ''/confirm-account'']"
    by (simp add: cw navigate_def emit_def)
  show "currentUser (snd (connectWallet e s)) = currentUser s"
    by (simp add: cw navigate_def emit_def)
  assume au: "authenticate e prov = Resolves (Some u)"
  show "toasts (handleLogin e prov s) =
                toasts s @ [\<lparr>render = msg_logged_in, severity = Success\<rparr>]"
    using au by (simp add: cw handleLogin_def Let_def truthy_def navigate_def toast_update_def)
  show "currentUser (handleLogin e prov s) = currentUser s"
    using au by (simp add: cw handleLogin_def Let_def truthy_def navigate_def toast_update_def
        emit_def)
next
  assume sv: "save e (user\<lparr>handlesPendingConfirmation := Some hs\<rparr>) = Rejects"
  have cw: "connectWallet e s =
      (Inl Rejected,
       emit UserSave (emit (UserSet hs)
         (if handlesPendingConfirmation user \<noteq> None
          then navigate ''/confirm-account'' s else s)))" for s
    using assms sv by (simp add: connectWallet_identity Let_def)
  show "fst (connectWallet e s) = Inl Rejected"
    by (simp add: cw)
  show "events (snd (connectWallet e s)) =
             events s @
             (if handlesPendingConfirmation user \<noteq> None then [Navigate ''/confirm-account''] else []) @
             [UserSet hs, UserSave]"
    by (simp add: cw navigate_def emit_def)
  show "currentUser (snd (connectWallet e s)) = currentUser s"
    by (simp add: cw navigate_def emit_def)
  assume au: "authenticate e prov = Resolves (Some u)"
  show "toasts (handleLogin e prov s) =
                toasts s @ [\<lparr>render = msg_failure, severity = Error\<rparr>]"
    using au by (simp add: cw handleLogin_def Let_def navigate_def toast_update_def logUserOut_def)
  show "currentUser (handleLogin e prov s) = DEFAULT_STATE"
    using au by (simp add: cw handleLogin_def Let_def effect_defs)
  show "Logout \<in> set (events (handleLogin e prov s))"
    using au by (simp add: cw handleLogin_def Let_def effect_defs)
qed

theorem connectWallet_associated_handles_witness:
  "current env_newcomer = Some ex_newcomer \<and> \<not> truthy (c4Username ex_newcomer) \<and>
   findUser env_newcomer = Resolves (Some [''bobby'']) \<and>
   fst (connectWallet env_newcomer ex_state) = Inr (Some ''connected'') \<and>
   events (snd (connectWallet env_newcomer ex_state)) =
     [UserSet [''bobby''], UserSave, Navigate ''/confirm-account''] \<and>
   authenticate env_newcomer Metamask = Resolves (Some ex_newcomer) \<and>
   toasts (handleLogin env_newcomer Metamask ex_state) =
     [\<lparr>render = msg_logged_in, severity = Success\<rparr>] \<and>
   current env_save_rejected = Some ex_newcomer \<and>
   findUser env_save_rejected = Resolves (Some [''bobby'']) \<and>
   fst (connectWallet env_save_rejected ex_state) = Inl Rejected \<and>
   events (snd (connectWallet env_save_rejected ex_state)) = [UserSet [''bobby''], UserSave] \<and>
   toasts (handleLogin env_save_rejected Metamask ex_state) =
     [\<lparr>render = msg_failure, severity = Error\<rparr>]"
proof -
  have h1: "current env_newcomer = Some ex_newcomer" by (simp add: ex_defs)
  have h2: "\<not> truthy (c4Username ex_newcomer)" by (simp add: ex_defs truthy_def)
  have h3: "findUser env_newcomer = Resolves (Some [''bobby''])" by (simp add: ex_defs)
  have h4: "[''bobby''] \<noteq> []" by simp
  have h5: "save env_newcomer (ex_newcomer\<lparr>handlesPendingConfirmation := Some [''bobby'']\<rparr>) =
      Resolves ()" by (simp add: ex_defs)
  have h6: "authenticate env_newcomer Metamask = Resolves (Some ex_newcomer)"
    by (simp add: ex_defs)
  have h7: "handlesPendingConfirmation ex_newcomer = None" "events ex_state = []"
    "toasts ex_state = []"
    by (simp_all add: ex_defs toasts_def)
  have k1: "current env_save_rejected = Some ex_newcomer" by (simp add: ex_defs)
  have k3: "findUser env_save_rejected = Resolves (Some [''bobby''])" by (simp add: ex_defs)
  have k5: "save env_save_rejected (ex_newcomer\<lparr>handlesPendingConfirmation := Some [''bobby'']\<rparr>) =
      Rejects" by (simp add: ex_defs)
  have k6: "authenticate env_save_rejected Metamask = Resolves (Some ex_newcomer)"
    by (simp add: ex_defs)
  from connectWallet_associated_handles [OF h1 h2 h3 h4, where s = ex_state
      and prov = Metamask and u = ex_newcomer] h5 h6 h7
  have a: "fst (connectWallet env_newcomer ex_state) = Inr (Some ''connected'')"
    "events (snd (connectWallet env_newcomer ex_state)) =
       [UserSet [''bobby''], UserSave, Navigate ''/confirm-account'']"
    "toasts (handleLogin env_newcomer Metamask ex_state) =
       [\<lparr>render = msg_logged_in, severity = Success\<rparr>]"
    by simp_all
  from connectWallet_associated_handles [OF k1 h2 k3 h4, where s = ex_state
      and prov = Metamask and u = ex_newcomer] k5 k6 h7
  have b: "fst (connectWallet env_save_rejected ex_state) = Inl Rejected"
    "events (snd (connectWallet env_save_rejected ex_state)) = [UserSet [''bobby''], UserSave]"
    "toasts (handleLogin env_save_rejected Metamask ex_state) =
       [\<lparr>render = msg_failure, severity = Error\<rparr>]"
    by simp_all
  from a b h1 h2 h3 h6 k1 k3 show ?thesis by simp
qed

text \<open>
  Claim C10 as stated fails where \<^verbatim>\<open>user.save()\<close> rejects: the identity has no handle and
  one associated handle is found, yet \<^verbatim>\<open>connectWallet\<close> does not return
  \<^verbatim>\<open>"connected"\<close>, does not navigate, and \<^verbatim>\<open>handleLogin\<close> shows the failure notification.
\<close>

theorem connectWallet_associated_handles_counterexample:
  "current env_save_rejected = Some ex_newcomer \<and> \<not> truthy (c4Username ex_newcomer) \<and>
   findUser env_save_rejected = Resolves (Some [''bobby'']) \<and>
   fst (connectWallet env_save_rejected ex_state) = Inl Rejected \<and>
   Navigate ''/confirm-account'' \<notin> set (events (snd (connectWallet env_save_rejected ex_state))) \<and>
   authenticate env_save_rejected Metamask = Resolves (Some ex_newcomer) \<and>
   toasts (handleLogin env_save_rejected Metamask ex_state) =
     [\<lparr>render = msg_failure, severity = Error\<rparr>]"
  by (simp add: handleLogin_def connectWallet_def ex_defs truthy_def Let_def effect_defs
      toasts_def)

text \<open>
  Claim C2, at the input where it fails. The identity has the handle \<^verbatim>\<open>alice\<close> and the
  profile record has no \<^verbatim>\<open>moralisId\<close>, so \<^verbatim>\<open>connectWallet\<close> throws
  \<^verbatim>\<open>ConnectionPending\<close>. \<^verbatim>\<open>handleLogin\<close> updates the toast twice: to the pending-review
  message, then (there is no \<^verbatim>\<open>return\<close> after line 95, unlike after line 85) to the
  generic failure message.
\<close>

theorem handleLogin_connection_pending_run:
  "fst (connectWallet env_unlinked (emit (ToastLoading ''Logging in...'') ex_state)) =
     Inl (Thrown ConnectionPending) \<and>
   toasts (handleLogin env_unlinked Metamask ex_state) =
     [\<lparr>render = msg_connection_pending, severity = Error\<rparr>,
      \<lparr>render = msg_failure, severity = Error\<rparr>]"
  by (simp add: handleLogin_def connectWallet_def ex_defs truthy_def Let_def effect_defs
      step_defs url_defs ok_def toasts_def)

end
